theory Spec2Isabelle
  imports Complex_Main
begin

section \<open>JavaScript numbers\<close>

text \<open>
  The statistics code of \<^verbatim>\<open>BioreactorHandleAnalysis.jsx\<close> computes with JavaScript
  numbers. They are modelled as the real numbers extended by the three special values of
  IEEE arithmetic, so that every division by zero, every \<^verbatim>\<open>0/0\<close> and every comparison
  with \<^verbatim>\<open>NaN\<close> is a branch of the model. Rounding and overflow of finite values are
  not modelled, and the two zeros are identified (no divisor of the code can be a negative
  zero: the divisors are lengths, square roots and the constant 8).
\<close>

datatype jsnum = Fin real | PInf | NInf | NaN

fun js_neg :: "jsnum \<Rightarrow> jsnum" where
  "js_neg (Fin a) = Fin (- a)"
| "js_neg PInf = NInf"
| "js_neg NInf = PInf"
| "js_neg NaN = NaN"

fun js_add :: "jsnum \<Rightarrow> jsnum \<Rightarrow> jsnum" where
  "js_add (Fin a) (Fin b) = Fin (a + b)"
| "js_add (Fin a) PInf = PInf"
| "js_add (Fin a) NInf = NInf"
| "js_add PInf (Fin b) = PInf"
| "js_add PInf PInf = PInf"
| "js_add PInf NInf = NaN"
| "js_add NInf (Fin b) = NInf"
| "js_add NInf PInf = NaN"
| "js_add NInf NInf = NInf"
| "js_add NaN y = NaN"
| "js_add x NaN = NaN"

definition js_sub :: "jsnum \<Rightarrow> jsnum \<Rightarrow> jsnum" where
  "js_sub x y = js_add x (js_neg y)"

fun js_mul :: "jsnum \<Rightarrow> jsnum \<Rightarrow> jsnum" where
  "js_mul (Fin a) (Fin b) = Fin (a * b)"
| "js_mul (Fin a) PInf = (if a = 0 then NaN else if 0 < a then PInf else NInf)"
| "js_mul (Fin a) NInf = (if a = 0 then NaN else if 0 < a then NInf else PInf)"
| "js_mul PInf (Fin b) = (if b = 0 then NaN else if 0 < b then PInf else NInf)"
| "js_mul NInf (Fin b) = (if b = 0 then NaN else if 0 < b then NInf else PInf)"
| "js_mul PInf PInf = PInf"
| "js_mul PInf NInf = NInf"
| "js_mul NInf PInf = NInf"
| "js_mul NInf NInf = PInf"
| "js_mul NaN y = NaN"
| "js_mul x NaN = NaN"

fun js_div :: "jsnum \<Rightarrow> jsnum \<Rightarrow> jsnum" where
  "js_div (Fin a) (Fin b) =
     (if b \<noteq> 0 then Fin (a / b)
      else if a = 0 then NaN
      else if 0 < a then PInf else NInf)"
| "js_div (Fin a) PInf = Fin 0"
| "js_div (Fin a) NInf = Fin 0"
| "js_div PInf (Fin b) = (if 0 \<le> b then PInf else NInf)"
| "js_div NInf (Fin b) = (if 0 \<le> b then NInf else PInf)"
| "js_div PInf PInf = NaN"
| "js_div PInf NInf = NaN"
| "js_div NInf PInf = NaN"
| "js_div NInf NInf = NaN"
| "js_div NaN y = NaN"
| "js_div x NaN = NaN"

text \<open>\<^verbatim>\<open>Math.sqrt\<close> and \<^verbatim>\<open>Math.abs\<close>.\<close>

fun js_sqrt :: "jsnum \<Rightarrow> jsnum" where
  "js_sqrt (Fin a) = (if a < 0 then NaN else Fin (sqrt a))"
| "js_sqrt PInf = PInf"
| "js_sqrt NInf = NaN"
| "js_sqrt NaN = NaN"

fun js_abs :: "jsnum \<Rightarrow> jsnum" where
  "js_abs (Fin a) = Fin \<bar>a\<bar>"
| "js_abs PInf = PInf"
| "js_abs NInf = PInf"
| "js_abs NaN = NaN"

text \<open>The comparisons \<^verbatim>\<open><\<close>, \<^verbatim>\<open><=\<close> and \<^verbatim>\<open>===\<close> on numbers: every comparison with
  \<^verbatim>\<open>NaN\<close> is false.\<close>

fun js_lt :: "jsnum \<Rightarrow> jsnum \<Rightarrow> bool" where
  "js_lt (Fin a) (Fin b) = (a < b)"
| "js_lt (Fin a) PInf = True"
| "js_lt (Fin a) NInf = False"
| "js_lt PInf y = False"
| "js_lt NInf (Fin b) = True"
| "js_lt NInf PInf = True"
| "js_lt NInf NInf = False"
| "js_lt NaN y = False"
| "js_lt x NaN = False"

definition js_gt :: "jsnum \<Rightarrow> jsnum \<Rightarrow> bool" where
  "js_gt x y = js_lt y x"

definition js_eq :: "jsnum \<Rightarrow> jsnum \<Rightarrow> bool" where
  "js_eq x y = (x \<noteq> NaN \<and> y \<noteq> NaN \<and> x = y)"

definition js_le :: "jsnum \<Rightarrow> jsnum \<Rightarrow> bool" where
  "js_le x y = (js_lt x y \<or> js_eq x y)"

definition js_ge :: "jsnum \<Rightarrow> jsnum \<Rightarrow> bool" where
  "js_ge x y = js_le y x"

text \<open>\<^verbatim>\<open>Math.max\<close> of two numbers, and of three as the scorer calls it: \<^verbatim>\<open>NaN\<close> if
  an argument is \<^verbatim>\<open>NaN\<close>.\<close>

definition js_max :: "jsnum \<Rightarrow> jsnum \<Rightarrow> jsnum" where
  "js_max x y = (if x = NaN \<or> y = NaN then NaN else if js_lt x y then y else x)"

definition js_max3 :: "jsnum \<Rightarrow> jsnum \<Rightarrow> jsnum \<Rightarrow> jsnum" where
  "js_max3 x y z = js_max (js_max x y) z"

text \<open>Truthiness of a number (\<^verbatim>\<open>Boolean(x)\<close>): zero and \<^verbatim>\<open>NaN\<close> are falsy.\<close>

definition truthy_num :: "jsnum \<Rightarrow> bool" where
  "truthy_num x = (x \<noteq> Fin 0 \<and> x \<noteq> NaN)"

section \<open>The mathjs functions the component calls\<close>

text \<open>
  \<^verbatim>\<open>math.mean\<close>, \<^verbatim>\<open>math.variance\<close> and \<^verbatim>\<open>math.std\<close> belong to the mathjs library,
  which the component imports. They are modelled on arrays of numbers as the library
  documents and implements them:
  \<^item> all three accumulate the values from left to right, starting from the first value;
  \<^item> \<^verbatim>\<open>math.mean\<close> of an empty array throws
    \<^verbatim>\<open>Error('Cannot calculate the mean of an empty array')\<close>, and the two others throw
    on an empty array too;
  \<^item> called with one argument, \<^verbatim>\<open>math.variance\<close> and \<^verbatim>\<open>math.std\<close> use the
    normalization \<^verbatim>\<open>'unbiased'\<close>, the library's default: the sum of squared
    differences is divided by \<open>n - 1\<close>, and the variance of a single value is 0; a sum
    that is \<^verbatim>\<open>NaN\<close> is returned as it is;
  \<^item> \<^verbatim>\<open>math.std\<close> is the square root of \<^verbatim>\<open>math.variance\<close>.
\<close>

datatype error = EmptyMean | EmptyVariance

definition math_mean :: "jsnum list \<Rightarrow> error + jsnum" where
  "math_mean array =
     (case array of
        [] \<Rightarrow> Inl EmptyMean
      | v # vs \<Rightarrow> Inr (js_div (foldl js_add v vs) (Fin (real (length array)))))"

definition math_variance :: "jsnum list \<Rightarrow> error + jsnum" where
  "math_variance array =
     (case array of
        [] \<Rightarrow> Inl EmptyVariance
      | v # vs \<Rightarrow>
          (let num = length array;
               mean = js_div (foldl js_add v vs) (Fin (real num));
               sq = (\<lambda>value. js_mul (js_sub value mean) (js_sub value mean));
               sum = foldl js_add (sq v) (map sq vs)
           in if sum = NaN then Inr sum
              else if num = 1 then Inr (Fin 0)
              else Inr (js_div sum (Fin (real (num - 1))))))"

definition math_std :: "jsnum list \<Rightarrow> error + jsnum" where
  "math_std array =
     (case math_variance array of Inl e \<Rightarrow> Inl e | Inr v \<Rightarrow> Inr (js_sqrt v))"

section \<open>Descriptive statistics and confidence interval\<close>

record stats =
  stat_mean :: jsnum
  stat_stdDev :: jsnum
  stat_n :: nat

text \<open>\<^verbatim>\<open>calculateStats\<close> (lines 202-207). An exception of mathjs would leave the function;
  it is the \<open>Inl\<close> branch.\<close>

definition calculateStats :: "jsnum list \<Rightarrow> error + stats" where
  "calculateStats arr =
     (if length arr = 0 then Inr \<lparr>stat_mean = Fin 0, stat_stdDev = Fin 0, stat_n = 0\<rparr>
      else case math_mean arr of
             Inl e \<Rightarrow> Inl e
           | Inr mean \<Rightarrow>
               (case math_std arr of
                  Inl e \<Rightarrow> Inl e
                | Inr stdDev \<Rightarrow>
                    Inr \<lparr>stat_mean = mean, stat_stdDev = stdDev, stat_n = length arr\<rparr>))"

text \<open>\<^verbatim>\<open>calculateCI\<close> (lines 210-214); \<open>n\<close> is always the length of a sample.\<close>

definition calculateCI :: "jsnum \<Rightarrow> jsnum \<Rightarrow> nat \<Rightarrow> jsnum \<times> jsnum" where
  "calculateCI mean stdDev n =
     (if n \<le> 1 then (Fin 0, Fin 0)
      else let marginOfError = js_mul (Fin 1.96) (js_div stdDev (js_sqrt (Fin (real n))))
           in (js_sub mean marginOfError, js_add mean marginOfError))"

text \<open>The population standard deviation in the words of the specification: the square root
  of the mean squared deviation, with divisor \<open>n\<close>.\<close>

definition populationStd :: "real list \<Rightarrow> real" where
  "populationStd xs =
     (let m = sum_list xs / real (length xs)
      in sqrt (sum_list (map (\<lambda>x. (x - m)\<^sup>2) xs) / real (length xs)))"

text \<open>The sample standard deviation: divisor \<open>n - 1\<close>, and 0 for a single value.\<close>

definition sampleStd :: "real list \<Rightarrow> real" where
  "sampleStd xs =
     (let m = sum_list xs / real (length xs)
      in if length xs = 1 then 0
         else sqrt (sum_list (map (\<lambda>x. (x - m)\<^sup>2) xs) / real (length xs - 1)))"

text \<open>The pooled variance of two samples, from their sample standard deviations: the
  quantity whose square root \<^verbatim>\<open>cohenD\<close> divides by.\<close>

definition pooledVariance :: "real list \<Rightarrow> real list \<Rightarrow> real" where
  "pooledVariance xs ys =
     ((real (length xs) - 1) * sampleStd xs * sampleStd xs
        + (real (length ys) - 1) * sampleStd ys * sampleStd ys)
     / (real (length xs) + real (length ys) - 2)"

text \<open>The descriptive block that \<^verbatim>\<open>runStatisticalAnalysis\<close> builds for each handle of each
  metric (lines 131-137 and 151-168): the statistics of the sample and the confidence
  interval computed from them.\<close>

record descriptive =
  d_mean :: jsnum
  d_stdDev :: jsnum
  d_ci :: "jsnum \<times> jsnum"
  d_n :: nat

definition handleStats :: "jsnum list \<Rightarrow> error + descriptive" where
  "handleStats arr =
     (case calculateStats arr of
        Inl e \<Rightarrow> Inl e
      | Inr st \<Rightarrow>
          Inr \<lparr>d_mean = stat_mean st, d_stdDev = stat_stdDev st,
               d_ci = calculateCI (stat_mean st) (stat_stdDev st) (stat_n st),
               d_n = stat_n st\<rparr>)"

section \<open>Pairwise comparison\<close>

text \<open>Sequencing of calls that may throw: the first exception leaves the function.\<close>

definition bindE :: "error + 'a \<Rightarrow> ('a \<Rightarrow> error + 'b) \<Rightarrow> error + 'b" where
  "bindE m f = (case m of Inl e \<Rightarrow> Inl e | Inr x \<Rightarrow> f x)"

record ttest =
  tt_t :: jsnum
  tt_pValue :: string

text \<open>The chain of lines 233-236 of \<^verbatim>\<open>tTest\<close>, which turns the statistic into its bucket.\<close>

definition pValueOf :: "jsnum \<Rightarrow> string" where
  "pValueOf t =
     (if js_gt (js_abs t) (Fin 2.7) then ''< 0.01''
      else if js_gt (js_abs t) (Fin 2.0) then ''< 0.05''
      else ''> 0.05'')"

text \<open>\<^verbatim>\<open>tTest\<close> (lines 217-239).\<close>

definition tTest :: "jsnum list \<Rightarrow> jsnum list \<Rightarrow> error + ttest" where
  "tTest arr1 arr2 =
     (if length arr1 = 0 \<or> length arr2 = 0 then Inr \<lparr>tt_t = Fin 0, tt_pValue = ''> 0.05''\<rparr>
      else
        bindE (math_mean arr1) (\<lambda>mean1.
        bindE (math_mean arr2) (\<lambda>mean2.
        bindE (math_variance arr1) (\<lambda>var1.
        bindE (math_variance arr2) (\<lambda>var2.
          let n1 = Fin (real (length arr1));
              n2 = Fin (real (length arr2));
              t = js_div (js_sub mean1 mean2)
                    (js_sqrt (js_add (js_div var1 n1) (js_div var2 n2)))
          in Inr \<lparr>tt_t = t, tt_pValue = pValueOf t\<rparr>)))))"

text \<open>\<^verbatim>\<open>cohenD\<close> (lines 242-259).\<close>

definition cohenD :: "jsnum list \<Rightarrow> jsnum list \<Rightarrow> error + jsnum" where
  "cohenD arr1 arr2 =
     (if length arr1 = 0 \<or> length arr2 = 0 then Inr (Fin 0)
      else
        bindE (math_mean arr1) (\<lambda>mean1.
        bindE (math_mean arr2) (\<lambda>mean2.
        bindE (math_std arr1) (\<lambda>s1.
        bindE (math_std arr2) (\<lambda>s2.
          let n1 = real (length arr1);
              n2 = real (length arr2);
              pooledSD =
                js_sqrt
                  (js_div
                     (js_add (js_mul (js_mul (Fin (n1 - 1)) s1) s1)
                             (js_mul (js_mul (Fin (n2 - 1)) s2) s2))
                     (Fin (n1 + n2 - 2)))
          in Inr (js_div (js_abs (js_sub mean1 mean2)) pooledSD))))))"

text \<open>\<^verbatim>\<open>interpretCohenD\<close> (lines 262-267).\<close>

definition interpretCohenD :: "jsnum \<Rightarrow> string" where
  "interpretCohenD d =
     (if js_lt d (Fin 0.2) then ''Negligible''
      else if js_lt d (Fin 0.5) then ''Small''
      else if js_lt d (Fin 0.8) then ''Medium''
      else ''Large'')"

section \<open>Response rows\<close>

text \<open>
  A value of a parsed row: with \<^verbatim>\<open>dynamicTyping\<close> the parser yields numbers, booleans,
  strings and \<^verbatim>\<open>null\<close>; reading a field the row does not have yields
  \<^verbatim>\<open>undefined\<close>. A row is a map from field names to values.
\<close>

datatype jsval = Undefined | Null | JBool bool | JNum jsnum | JStr string

type_synonym row = "string \<rightharpoonup> jsval"

definition field :: "row \<Rightarrow> string \<Rightarrow> jsval" where
  "field r k = (case r k of None \<Rightarrow> Undefined | Some v \<Rightarrow> v)"

fun truthy :: "jsval \<Rightarrow> bool" where
  "truthy Undefined = False"
| "truthy Null = False"
| "truthy (JBool b) = b"
| "truthy (JNum x) = truthy_num x"
| "truthy (JStr s) = (s \<noteq> [])"

text \<open>
  The conversion to a number that \<^verbatim>\<open>*\<close> and \<^verbatim>\<open>-\<close> apply to an operand. What a string
  converts to is the language's \<^verbatim>\<open>StringToNumber\<close>; it is the parameter \<open>sn\<close> of the
  model, so that every result below holds whatever a string converts to.
\<close>

fun toNumber :: "(string \<Rightarrow> jsnum) \<Rightarrow> jsval \<Rightarrow> jsnum" where
  "toNumber sn Undefined = NaN"
| "toNumber sn Null = Fin 0"
| "toNumber sn (JBool b) = (if b then Fin 1 else Fin 0)"
| "toNumber sn (JNum x) = x"
| "toNumber sn (JStr s) = sn s"

subsection \<open>The cleanup of the attempt fields\<close>

text \<open>The pass of lines 56-68 over the parsed rows. \<^verbatim>\<open>/^\d+/\<close> matches the longest run of
  decimal digits at the start of the string, and fails when the run is empty;
  \<^verbatim>\<open>parseInt(_, 10)\<close> of a run of digits is the number they write.\<close>

definition isDigit :: "char \<Rightarrow> bool" where
  "isDigit c = (c \<in> set ''0123456789'')"

definition digitVal :: "char \<Rightarrow> nat" where
  "digitVal c = of_char c - 48"

definition parseInt :: "string \<Rightarrow> nat" where
  "parseInt ds = foldl (\<lambda>acc c. 10 * acc + digitVal c) 0 ds"

definition matchDigits :: "string \<Rightarrow> string option" where
  "matchDigits s = (let ds = takeWhile isDigit s in if ds = [] then None else Some ds)"

definition attemptFields :: "string list" where
  "attemptFields = [''Number of Attempts'', ''Number of Attempts_1'', ''Number of Attempts_2'']"

definition cleanField :: "string \<Rightarrow> row \<Rightarrow> row" where
  "cleanField f r =
     (if truthy (field r f) then
        (case field r f of
           JStr s \<Rightarrow>
             (case matchDigits s of
                None \<Rightarrow> r
              | Some numericPart \<Rightarrow> r(f \<mapsto> JNum (Fin (real (parseInt numericPart)))))
         | _ \<Rightarrow> r)
      else r)"

definition cleanRow :: "row \<Rightarrow> row" where
  "cleanRow r = fold cleanField attemptFields r"

definition cleanData :: "row list \<Rightarrow> row list" where
  "cleanData rows = map cleanRow rows"

section \<open>Aggregate scores\<close>

record score =
  participantId :: jsval
  rectangleScore :: jsnum
  curvedScore :: jsnum
  circleScore :: jsnum
  topChoice :: string

text \<open>\<^verbatim>\<open>row[f] || 0\<close>, and the inversion of an attempts field (lines 273-276).\<close>

definition orZero :: "jsval \<Rightarrow> jsval" where
  "orZero v = (if truthy v then v else JNum (Fin 0))"

definition invertAttempts :: "(string \<Rightarrow> jsnum) \<Rightarrow> jsval \<Rightarrow> jsnum" where
  "invertAttempts sn v = (if truthy v then js_sub (Fin 5) (toNumber sn v) else Fin 0)"

text \<open>The weighted sum of lines 280-288, which the source writes three times, once for each
  handle; the sum associates to the left.\<close>

definition weightedScore ::
  "(string \<Rightarrow> jsnum) \<Rightarrow> jsval \<Rightarrow> jsnum \<Rightarrow> jsval \<Rightarrow> jsval \<Rightarrow> jsval \<Rightarrow> jsval \<Rightarrow> jsval \<Rightarrow> jsnum" where
  "weightedScore sn accuracy attempts comfort security ease intuitive satisfaction =
     js_div
       (js_add (js_add (js_add (js_add (js_add (js_add
          (js_mul (Fin 1.5) (toNumber sn (orZero accuracy)))
          (js_mul (Fin 1.0) attempts))
          (js_mul (Fin 1.2) (toNumber sn (orZero comfort))))
          (js_mul (Fin 1.0) (toNumber sn (orZero security))))
          (js_mul (Fin 1.0) (toNumber sn (orZero ease))))
          (js_mul (Fin 0.8) (toNumber sn (orZero intuitive))))
          (js_mul (Fin 1.5) (toNumber sn (orZero satisfaction))))
       (Fin 8.0)"

text \<open>The conditional of lines 315-319.\<close>

definition chooseTop :: "jsnum \<Rightarrow> jsnum \<Rightarrow> jsnum \<Rightarrow> string" where
  "chooseTop rect curved circ =
     (if js_eq (js_max3 rect curved circ) rect then ''Rectangle Handle''
      else if js_eq (js_max3 rect curved circ) curved then ''Curved Handle''
      else ''Circle Undergrip Handle'')"

text \<open>The function mapped over the rows (lines 271-321).\<close>

definition scoreRow :: "(string \<Rightarrow> jsnum) \<Rightarrow> row \<Rightarrow> score" where
  "scoreRow sn r =
     (let rectAttempts = invertAttempts sn (field r ''Number of Attempts'');
          curvedAttempts = invertAttempts sn (field r ''Number of Attempts_1'');
          circleAttempts = invertAttempts sn (field r ''Number of Attempts_2'');
          rectangle =
            weightedScore sn (field r ''Positioning Accuracy'') rectAttempts
              (field r ''Comfort'') (field r ''Grip Security'') (field r ''Ease of Use'')
              (field r ''Intuitiveness '') (field r ''Overall Satisfaction'');
          curved =
            weightedScore sn (field r ''Positioning Accuracy_1'') curvedAttempts
              (field r ''Comfort_1'') (field r ''Grip Security_1'') (field r ''Ease of Use_1'')
              (field r ''Intuitiveness _1'') (field r ''Overall Satisfaction_1'');
          circ =
            weightedScore sn (field r ''Positioning Accuracy_2'') circleAttempts
              (field r ''Comfort_2'') (field r ''Grip Security_2'') (field r ''Ease of Use_2'')
              (field r ''Intuitiveness _2'') (field r ''Overall Satisfaction_2'');
          pid = field r ''  Please enter your assigned participant ID:''
      in \<lparr>participantId = (if truthy pid then pid else JStr ''Unknown''),
          rectangleScore = rectangle,
          curvedScore = curved,
          circleScore = circ,
          topChoice = chooseTop rectangle curved circ\<rparr>)"

text \<open>The three counts of lines 328-332, in the order Rectangle, Curved, Circle.\<close>

definition topChoiceCounts :: "score list \<Rightarrow> nat \<times> nat \<times> nat" where
  "topChoiceCounts scores =
     (length (filter (\<lambda>s. topChoice s = ''Rectangle Handle'') scores),
      length (filter (\<lambda>s. topChoice s = ''Curved Handle'') scores),
      length (filter (\<lambda>s. topChoice s = ''Circle Undergrip Handle'') scores))"

record aggregate =
  agg_average :: "jsnum \<times> jsnum \<times> jsnum"
  agg_topChoiceCounts :: "nat \<times> nat \<times> nat"
  agg_detail :: "score list"

text \<open>\<^verbatim>\<open>calculateAggregateScores\<close> (lines 270-343); the value is what it passes to
  \<^verbatim>\<open>setAggregateScores\<close>. The three means are taken before the counts, and only the
  Circle scores are filtered by \<^verbatim>\<open>Boolean\<close>.\<close>

definition calculateAggregateScores :: "(string \<Rightarrow> jsnum) \<Rightarrow> row list \<Rightarrow> error + aggregate" where
  "calculateAggregateScores sn data =
     (let scores = map (scoreRow sn) data
      in bindE (math_mean (map rectangleScore scores)) (\<lambda>avgRectangleScore.
         bindE (math_mean (map curvedScore scores)) (\<lambda>avgCurvedScore.
         bindE (math_mean (filter truthy_num (map circleScore scores))) (\<lambda>avgCircleScore.
           Inr \<lparr>agg_average = (avgRectangleScore, avgCurvedScore, avgCircleScore),
                agg_topChoiceCounts = topChoiceCounts scores,
                agg_detail = scores\<rparr>))))"

subsection \<open>Sample rows\<close>

text \<open>A row whose seven Rectangle sub-metrics are 5 and whose attempts are 0; a row whose
  Rectangle and Curved scores are equal and above the Circle score; a row with comments in
  its attempt fields.\<close>

definition fivesRow :: row where
  "fivesRow =
     [''Positioning Accuracy'' \<mapsto> JNum (Fin 5),
      ''Number of Attempts'' \<mapsto> JNum (Fin 0),
      ''Comfort'' \<mapsto> JNum (Fin 5),
      ''Grip Security'' \<mapsto> JNum (Fin 5),
      ''Ease of Use'' \<mapsto> JNum (Fin 5),
      ''Intuitiveness '' \<mapsto> JNum (Fin 5),
      ''Overall Satisfaction'' \<mapsto> JNum (Fin 5)]"

definition tieRow :: row where
  "tieRow =
     [''Positioning Accuracy'' \<mapsto> JNum (Fin 4),
      ''Positioning Accuracy_1'' \<mapsto> JNum (Fin 4),
      ''Positioning Accuracy_2'' \<mapsto> JNum (Fin 2)]"

definition commentRow :: row where
  "commentRow =
     [''Number of Attempts'' \<mapsto> JStr ''3 tries'',
      ''Number of Attempts_1'' \<mapsto> JStr ''none'',
      ''Comfort'' \<mapsto> JStr ''4x'']"

section \<open>The mathjs functions on finite samples\<close>

lemma foldl_js_add_Fin: "foldl js_add (Fin a) (map Fin xs) = Fin (a + sum_list xs)"
  by (induction xs arbitrary: a) (simp_all add: add.assoc)

lemma foldl_js_add_Fin_map:
  "foldl js_add (Fin a) (map (\<lambda>x. Fin (g x)) xs) = Fin (a + sum_list (map g xs))"
  by (induction xs arbitrary: a) (simp_all add: add.assoc)

lemma math_mean_Fin:
  "xs \<noteq> [] \<Longrightarrow> math_mean (map Fin xs) = Inr (Fin (sum_list xs / real (length xs)))"
  by (cases xs) (simp_all add: math_mean_def foldl_js_add_Fin)

lemma sum_sq_nonneg: "0 \<le> sum_list (map (\<lambda>x. (x - m)\<^sup>2) xs)" for m :: real
  by (induction xs) simp_all

lemma math_variance_Fin:
  assumes "xs \<noteq> []"
  shows "math_variance (map Fin xs) =
     Inr (Fin (if length xs = 1 then 0
               else sum_list (map (\<lambda>x. (x - sum_list xs / real (length xs))\<^sup>2) xs)
                      / real (length xs - 1)))"
proof -
  obtain y ys where xs: "xs = y # ys" using assms by (cases xs) auto
  define m where "m = sum_list xs / real (length xs)"
  have mean: "js_div (foldl js_add (Fin y) (map Fin ys)) (Fin (real (length (map Fin xs)))) = Fin m"
    using xs by (simp add: foldl_js_add_Fin m_def)
  show ?thesis
    using xs mean[unfolded xs]
    apply (simp add: math_variance_def Let_def m_def[symmetric])
    apply (simp add: js_sub_def power2_eq_square foldl_js_add_Fin_map comp_def)
    done
qed

lemma math_std_Fin:
  assumes "xs \<noteq> []"
  shows "math_std (map Fin xs) = Inr (Fin (sampleStd xs))"
  using sum_sq_nonneg[of "sum_list xs / real (length xs)" xs]
  by (auto simp: math_std_def math_variance_Fin[OF assms] sampleStd_def Let_def not_less
        intro!: divide_nonneg_nonneg)

text \<open>On a non-empty array none of the three throws.\<close>

lemma math_mean_total: "arr \<noteq> [] \<Longrightarrow> \<exists>m. math_mean arr = Inr m"
  by (cases arr) (simp_all add: math_mean_def)

lemma math_variance_total: "arr \<noteq> [] \<Longrightarrow> \<exists>m. math_variance arr = Inr m"
  by (cases arr) (simp_all add: math_variance_def Let_def)

lemma math_std_total: "arr \<noteq> [] \<Longrightarrow> \<exists>m. math_std arr = Inr m"
  using math_variance_total[of arr] by (auto simp: math_std_def)

section \<open>Properties of the descriptive statistics\<close>

text \<open>
  C1 (as amended). For every non-empty sample of finite numbers, \<^verbatim>\<open>calculateStats\<close>
  returns the arithmetic mean, the length, and the standard deviation of the sample
  formula: divisor \<open>n - 1\<close>, and 0 for a single value. The component calls
  \<^verbatim>\<open>math.std(arr)\<close> with no normalization argument, and the default of mathjs is
  \<^verbatim>\<open>'unbiased'\<close>.
\<close>

theorem calculateStats_sample_formula:
  "xs \<noteq> [] \<Longrightarrow>
   calculateStats (map Fin xs) =
     Inr \<lparr>stat_mean = Fin (sum_list xs / real (length xs)),
          stat_stdDev = Fin (sampleStd xs),
          stat_n = length xs\<rparr>"
  by (simp add: calculateStats_def math_mean_Fin math_std_Fin)

text \<open>The theorem at the sample \<open>[2, 4, 6]\<close>: mean 4, standard deviation 2.\<close>

theorem calculateStats_sample_formula_witness:
  "[2, 4, 6 :: real] \<noteq> []
   \<and> calculateStats (map Fin [2, 4, 6]) =
       Inr \<lparr>stat_mean = Fin 4, stat_stdDev = Fin 2, stat_n = 3\<rparr>"
  using calculateStats_sample_formula [of "[2, 4, 6]"]
  by (simp add: sampleStd_def power2_eq_square)

text \<open>
  C1 as the specification states it fails: for the sample \<open>[4, 5, 3]\<close> the code returns
  the standard deviation 1, and the population formula gives \<open>sqrt (2/3)\<close>, which is not 1.
\<close>

theorem calculateStats_not_population:
  "calculateStats [Fin 4, Fin 5, Fin 3] =
     Inr \<lparr>stat_mean = Fin 4, stat_stdDev = Fin 1, stat_n = 3\<rparr>
   \<and> populationStd [4, 5, 3] = sqrt (2 / 3)
   \<and> populationStd [4, 5, 3] \<noteq> 1"
  by (simp add: calculateStats_def math_mean_def math_std_def math_variance_def js_sub_def
        populationStd_def power2_eq_square)

lemma calculateStats_single:
  "\<exists>m s. calculateStats [x] = Inr \<lparr>stat_mean = m, stat_stdDev = s, stat_n = 1\<rparr>"
  by (simp add: calculateStats_def math_mean_def math_std_def math_variance_def Let_def)

text \<open>
  C8. The descriptive block of an empty sample is mean 0, standard deviation 0, \<open>n = 0\<close>
  and confidence interval \<open>[0, 0]\<close>; \<^verbatim>\<open>calculateCI\<close> returns \<open>[0, 0]\<close> whenever
  \<open>n \<le> 1\<close>, whatever mean and standard deviation it is given; and so the block of every
  sample of at most one number is produced, without an exception, with the interval
  \<open>[0, 0]\<close>.
\<close>

theorem degenerate_stats:
  "handleStats [] = Inr \<lparr>d_mean = Fin 0, d_stdDev = Fin 0, d_ci = (Fin 0, Fin 0), d_n = 0\<rparr>
   \<and> (n \<le> 1 \<longrightarrow> calculateCI m s n = (Fin 0, Fin 0))
   \<and> (length arr \<le> 1 \<longrightarrow>
        (\<exists>d. handleStats arr = Inr d \<and> d_ci d = (Fin 0, Fin 0) \<and> d_n d = length arr))"
proof (intro conjI impI)
  show "handleStats [] = Inr \<lparr>d_mean = Fin 0, d_stdDev = Fin 0, d_ci = (Fin 0, Fin 0), d_n = 0\<rparr>"
    by (simp add: handleStats_def calculateStats_def calculateCI_def)
  show "calculateCI m s n = (Fin 0, Fin 0)" if "n \<le> 1"
    using that by (simp add: calculateCI_def)
  show "\<exists>d. handleStats arr = Inr d \<and> d_ci d = (Fin 0, Fin 0) \<and> d_n d = length arr"
    if "length arr \<le> 1"
  proof (cases arr)
    case Nil
    then show ?thesis by (simp add: handleStats_def calculateStats_def calculateCI_def)
  next
    case (Cons x xs)
    with that have arr: "arr = [x]" by simp
    obtain m' s' where
      "calculateStats [x] = Inr \<lparr>stat_mean = m', stat_stdDev = s', stat_n = 1\<rparr>"
      using calculateStats_single by blast
    then show ?thesis by (simp add: arr handleStats_def calculateCI_def)
  qed
qed

text \<open>The theorem at \<open>n = 1\<close> and at the one-element sample \<open>[7]\<close>.\<close>

theorem degenerate_stats_witness:
  "(1::nat) \<le> 1
   \<and> calculateCI (Fin 3) (Fin 2) 1 = (Fin 0, Fin 0)
   \<and> length [Fin 7] \<le> 1
   \<and> (\<exists>d. handleStats [Fin 7] = Inr d \<and> d_ci d = (Fin 0, Fin 0) \<and> d_n d = 1)"
  using degenerate_stats [of 1 "Fin 3" "Fin 2" "[Fin 7]"] by simp

section \<open>Properties of the pairwise comparison\<close>

lemma pValueOf_zero: "pValueOf (Fin 0) = ''> 0.05''"
  by (simp add: pValueOf_def js_gt_def)

lemma tTest_bucket: "\<exists>r. tTest arr1 arr2 = Inr r \<and> tt_pValue r = pValueOf (tt_t r)"
proof (cases "arr1 = [] \<or> arr2 = []")
  case True
  then show ?thesis by (auto simp: tTest_def pValueOf_zero)
next
  case False
  then obtain m1 m2 v1 v2 where
    "math_mean arr1 = Inr m1" "math_mean arr2 = Inr m2"
    "math_variance arr1 = Inr v1" "math_variance arr2 = Inr v2"
    using math_mean_total math_variance_total by (metis (full_types))
  with False show ?thesis by (simp add: tTest_def bindE_def Let_def)
qed

lemma pValueOf_step:
  "(js_gt (js_abs t) (Fin 2.7) \<longrightarrow> pValueOf t = ''< 0.01'')
   \<and> (js_gt (js_abs t) (Fin 2.0) \<and> js_le (js_abs t) (Fin 2.7) \<longrightarrow> pValueOf t = ''< 0.05'')
   \<and> (js_le (js_abs t) (Fin 2.0) \<longrightarrow> pValueOf t = ''> 0.05'')"
  by (cases t) (auto simp: pValueOf_def js_gt_def js_le_def js_eq_def)

text \<open>
  C6. For every pair of samples \<^verbatim>\<open>tTest\<close> returns, and the bucket it returns is the
  step function \<open>pValueOf\<close> of the statistic it returns; that function has exclusive
  thresholds: \<open>|t| > 2.7\<close> gives the bucket below 0.01, \<open>2.0 < |t| \<le> 2.7\<close> the bucket
  below 0.05, \<open>|t| \<le> 2.0\<close> the bucket above 0.05, and so 2.71, 2.0 and 1.9 fall in the
  first, the last and the last bucket. The code spells the three buckets
  \<^verbatim>\<open>"< 0.01"\<close>, \<^verbatim>\<open>"< 0.05"\<close> and \<^verbatim>\<open>"> 0.05"\<close>.
\<close>

theorem pValue_step:
  "(\<exists>r. tTest arr1 arr2 = Inr r \<and> tt_pValue r = pValueOf (tt_t r))
   \<and> (js_gt (js_abs t) (Fin 2.7) \<longrightarrow> pValueOf t = ''< 0.01'')
   \<and> (js_gt (js_abs t) (Fin 2.0) \<and> js_le (js_abs t) (Fin 2.7) \<longrightarrow> pValueOf t = ''< 0.05'')
   \<and> (js_le (js_abs t) (Fin 2.0) \<longrightarrow> pValueOf t = ''> 0.05'')
   \<and> pValueOf (Fin 2.71) = ''< 0.01''
   \<and> pValueOf (Fin 2.0) = ''> 0.05''
   \<and> pValueOf (Fin 1.9) = ''> 0.05''"
  using tTest_bucket[of arr1 arr2] pValueOf_step[of t]
  by (simp add: pValueOf_def js_gt_def)

text \<open>The theorem at the statistics \<open>-3\<close>, \<open>2.5\<close> and \<open>1\<close>, one in each bucket.\<close>

theorem pValue_step_witness:
  "js_gt (js_abs (Fin (- 3))) (Fin 2.7) \<and> pValueOf (Fin (- 3)) = ''< 0.01''
   \<and> js_gt (js_abs (Fin 2.5)) (Fin 2.0) \<and> js_le (js_abs (Fin 2.5)) (Fin 2.7)
   \<and> pValueOf (Fin 2.5) = ''< 0.05''
   \<and> js_le (js_abs (Fin 1)) (Fin 2.0) \<and> pValueOf (Fin 1) = ''> 0.05''"
  using pValue_step [of "[]" "[]" "Fin (- 3)"] pValue_step [of "[]" "[]" "Fin 2.5"]
    pValue_step [of "[]" "[]" "Fin 1"]
  by (simp add: js_gt_def js_le_def js_eq_def)

text \<open>
  C7. The label of an effect size is a step function with left-closed boundaries:
  \<open>d < 0.2\<close> is Negligible, \<open>0.2 \<le> d < 0.5\<close> Small, \<open>0.5 \<le> d < 0.8\<close> Medium and
  \<open>d \<ge> 0.8\<close> Large; the six values of the specification get the labels it gives.
\<close>

theorem interpretCohenD_step:
  "(js_lt d (Fin 0.2) \<longrightarrow> interpretCohenD d = ''Negligible'')
   \<and> (js_ge d (Fin 0.2) \<and> js_lt d (Fin 0.5) \<longrightarrow> interpretCohenD d = ''Small'')
   \<and> (js_ge d (Fin 0.5) \<and> js_lt d (Fin 0.8) \<longrightarrow> interpretCohenD d = ''Medium'')
   \<and> (js_ge d (Fin 0.8) \<longrightarrow> interpretCohenD d = ''Large'')
   \<and> interpretCohenD (Fin 0.19) = ''Negligible''
   \<and> interpretCohenD (Fin 0.2) = ''Small''
   \<and> interpretCohenD (Fin 0.49) = ''Small''
   \<and> interpretCohenD (Fin 0.5) = ''Medium''
   \<and> interpretCohenD (Fin 0.79) = ''Medium''
   \<and> interpretCohenD (Fin 0.8) = ''Large''"
  by (cases d) (auto simp: interpretCohenD_def js_ge_def js_le_def js_eq_def)

text \<open>The theorem at \<open>0.1\<close>, \<open>0.3\<close>, \<open>0.6\<close> and at an infinite effect size.\<close>

theorem interpretCohenD_step_witness:
  "js_lt (Fin 0.1) (Fin 0.2) \<and> interpretCohenD (Fin 0.1) = ''Negligible''
   \<and> js_ge (Fin 0.3) (Fin 0.2) \<and> js_lt (Fin 0.3) (Fin 0.5)
   \<and> interpretCohenD (Fin 0.3) = ''Small''
   \<and> js_ge (Fin 0.6) (Fin 0.5) \<and> js_lt (Fin 0.6) (Fin 0.8)
   \<and> interpretCohenD (Fin 0.6) = ''Medium''
   \<and> js_ge PInf (Fin 0.8) \<and> interpretCohenD PInf = ''Large''"
  using interpretCohenD_step [of "Fin 0.1"] interpretCohenD_step [of "Fin 0.3"]
    interpretCohenD_step [of "Fin 0.6"] interpretCohenD_step [of PInf]
  by (simp add: js_ge_def js_le_def js_eq_def)

lemma js_abs_nonneg: "js_abs x = NaN \<or> js_ge (js_abs x) (Fin 0)"
  by (cases x) (auto simp: js_ge_def js_le_def js_eq_def)

lemma js_sqrt_nonneg: "js_sqrt x = NaN \<or> js_ge (js_sqrt x) (Fin 0)"
  by (cases x) (auto simp: js_ge_def js_le_def js_eq_def)

lemma js_div_nonneg:
  "a = NaN \<or> js_ge a (Fin 0) \<Longrightarrow> b = NaN \<or> js_ge b (Fin 0) \<Longrightarrow>
   js_div a b = NaN \<or> js_ge (js_div a b) (Fin 0)"
  by (cases a; cases b) (auto simp: js_ge_def js_le_def js_eq_def)

lemma cohenD_single: "cohenD [Fin a] [Fin b] = Inr NaN"
  by (simp add: cohenD_def bindE_def math_mean_def math_std_def math_variance_def Let_def
        js_sub_def)

text \<open>\<^verbatim>\<open>cohenD\<close> never throws, and what it returns is never negative; on an empty
  array it returns 0.\<close>

lemma cohenD_returns:
  "(\<exists>d. cohenD arr1 arr2 = Inr d \<and> (d = NaN \<or> js_ge d (Fin 0)))
   \<and> (arr1 = [] \<or> arr2 = [] \<longrightarrow> cohenD arr1 arr2 = Inr (Fin 0))"
proof (intro conjI impI)
  show "cohenD arr1 arr2 = Inr (Fin 0)" if "arr1 = [] \<or> arr2 = []"
    using that by (auto simp: cohenD_def)
  show "\<exists>d. cohenD arr1 arr2 = Inr d \<and> (d = NaN \<or> js_ge d (Fin 0))"
  proof (cases "arr1 = [] \<or> arr2 = []")
    case True
    then show ?thesis by (auto simp: cohenD_def js_ge_def js_le_def js_eq_def)
  next
    case False
    then obtain m1 m2 s1 s2 where
      "math_mean arr1 = Inr m1" "math_mean arr2 = Inr m2"
      "math_std arr1 = Inr s1" "math_std arr2 = Inr s2"
      using math_mean_total math_std_total by (metis (full_types))
    with False show ?thesis
      by (simp add: cohenD_def bindE_def Let_def js_div_nonneg js_abs_nonneg js_sqrt_nonneg)
  qed
qed

text \<open>On finite samples that are not degenerate (more than two values in all, and a
  positive pooled variance) \<^verbatim>\<open>cohenD\<close> returns the finite, non-negative quotient of the
  absolute mean difference by the pooled standard deviation.\<close>

lemma cohenD_Fin:
  assumes "xs \<noteq> []" "ys \<noteq> []"
  shows "cohenD (map Fin xs) (map Fin ys) =
     Inr (js_div (Fin \<bar>sum_list xs / real (length xs) - sum_list ys / real (length ys)\<bar>)
            (js_sqrt (js_div
               (Fin ((real (length xs) - 1) * sampleStd xs * sampleStd xs
                      + (real (length ys) - 1) * sampleStd ys * sampleStd ys))
               (Fin (real (length xs) + real (length ys) - 2)))))"
  using assms
  by (simp add: cohenD_def bindE_def math_mean_Fin math_std_Fin Let_def js_sub_def)

lemma cohenD_finite:
  assumes "xs \<noteq> []" "ys \<noteq> []" "2 < length xs + length ys" "0 < pooledVariance xs ys"
  shows "cohenD (map Fin xs) (map Fin ys) =
     Inr (Fin (\<bar>sum_list xs / real (length xs) - sum_list ys / real (length ys)\<bar>
               / sqrt (pooledVariance xs ys)))"
    and "0 \<le> \<bar>sum_list xs / real (length xs) - sum_list ys / real (length ys)\<bar>
               / sqrt (pooledVariance xs ys)"
proof -
  have n: "real (length xs) + real (length ys) - 2 \<noteq> 0" using assms(3) by simp
  have "js_div
          (Fin ((real (length xs) - 1) * sampleStd xs * sampleStd xs
                 + (real (length ys) - 1) * sampleStd ys * sampleStd ys))
          (Fin (real (length xs) + real (length ys) - 2)) = Fin (pooledVariance xs ys)"
    using n by (simp add: pooledVariance_def)
  moreover have "js_sqrt (Fin (pooledVariance xs ys)) = Fin (sqrt (pooledVariance xs ys))"
    using assms(4) by simp
  moreover have "sqrt (pooledVariance xs ys) \<noteq> 0" using assms(4) by simp
  ultimately show "cohenD (map Fin xs) (map Fin ys) =
     Inr (Fin (\<bar>sum_list xs / real (length xs) - sum_list ys / real (length ys)\<bar>
               / sqrt (pooledVariance xs ys)))"
    by (simp add: cohenD_Fin[OF assms(1,2)])
  show "0 \<le> \<bar>sum_list xs / real (length xs) - sum_list ys / real (length ys)\<bar>
               / sqrt (pooledVariance xs ys)"
    using assms(4) by simp
qed

text \<open>The samples \<open>[1, 3]\<close> and \<open>[5, 7]\<close> have the pooled variance 2 and the effect size
  \<open>4 / sqrt 2\<close>.\<close>

lemma cohenD_finite_example:
  "pooledVariance [1, 3] [5, 7] = 2
   \<and> cohenD (map Fin [1, 3]) (map Fin [5, 7]) = Inr (Fin (4 / sqrt 2))"
proof -
  have p: "pooledVariance [1, 3] [5, 7] = 2"
    by (simp add: pooledVariance_def sampleStd_def power2_eq_square)
  have "cohenD (map Fin [1, 3]) (map Fin [5, 7]) =
     Inr (Fin (\<bar>sum_list [1, 3] / real (length [1, 3 :: real])
                 - sum_list [5, 7] / real (length [5, 7 :: real])\<bar>
               / sqrt (pooledVariance [1, 3] [5, 7])))"
    by (rule cohenD_finite(1)) (simp_all add: p)
  with p show ?thesis by simp
qed

text \<open>
  C4. The specification has \<^verbatim>\<open>cohenD\<close> return a value \<open>\<ge> 0\<close> for every pair of samples,
  the degenerate ones included. The code guards the empty arrays only. For two samples of
  one value each the pooled variance is \<open>0/0\<close>, and for two samples of zero variance and
  equal means the quotient is \<open>0/0\<close>: it returns \<^verbatim>\<open>NaN\<close>, and \<^verbatim>\<open>NaN >= 0\<close> is false.
  \<^verbatim>\<open>interpretCohenD\<close> then labels that result \<^verbatim>\<open>Large\<close>.
\<close>

theorem cohenD_degenerate_NaN:
  "cohenD [Fin 1] [Fin 2] = Inr NaN
   \<and> \<not> js_ge NaN (Fin 0)
   \<and> cohenD [Fin 3, Fin 3] [Fin 3, Fin 3] = Inr NaN
   \<and> interpretCohenD NaN = ''Large''"
  by (simp add: cohenD_def bindE_def math_mean_def math_std_def math_variance_def Let_def
        js_sub_def js_ge_def js_le_def js_eq_def interpretCohenD_def)

section \<open>Frame of the cleanup pass\<close>

lemma matchDigits_eq:
  "matchDigits s = (if s \<noteq> [] \<and> isDigit (hd s) then Some (takeWhile isDigit s) else None)"
  by (cases s) (simp_all add: matchDigits_def Let_def)

lemma cleanField_other: "g \<noteq> f \<Longrightarrow> cleanField f r g = r g"
  by (simp add: cleanField_def split: jsval.splits option.splits)

lemma cleanField_changed:
  "cleanField f r g \<noteq> r g \<Longrightarrow>
   g = f \<and> (\<exists>s. r g = Some (JStr s) \<and> s \<noteq> [] \<and> isDigit (hd s)
       \<and> cleanField f r g = Some (JNum (Fin (real (parseInt (takeWhile isDigit s))))))"
  by (cases "g = f")
     (auto simp: cleanField_def field_def matchDigits_eq
        split: jsval.splits option.splits if_splits)

lemma cleanField_digits:
  "r f = Some (JStr s) \<Longrightarrow> s \<noteq> [] \<Longrightarrow> isDigit (hd s) \<Longrightarrow>
   cleanField f r f = Some (JNum (Fin (real (parseInt (takeWhile isDigit s)))))"
  by (simp add: cleanField_def field_def matchDigits_eq)

lemma cleanField_cong: "r f = r' f \<Longrightarrow> cleanField f r f = cleanField f r' f"
  by (simp add: cleanField_def field_def split: jsval.splits option.splits)

lemma cleanRow_unfold:
  "cleanRow r =
     cleanField ''Number of Attempts_2''
       (cleanField ''Number of Attempts_1'' (cleanField ''Number of Attempts'' r))"
  by (simp add: cleanRow_def attemptFields_def)

lemma cleanRow_at: "f \<in> set attemptFields \<Longrightarrow> cleanRow r f = cleanField f r f"
  by (auto simp: cleanRow_unfold attemptFields_def cleanField_other intro!: cleanField_cong)

lemma cleanRow_other: "f \<notin> set attemptFields \<Longrightarrow> cleanRow r f = r f"
  by (simp add: cleanRow_unfold attemptFields_def cleanField_other)

lemma cleanRow_changed:
  assumes "cleanRow r f \<noteq> r f"
  shows "f \<in> set attemptFields
    \<and> (\<exists>s. r f = Some (JStr s) \<and> s \<noteq> [] \<and> isDigit (hd s)
         \<and> cleanRow r f = Some (JNum (Fin (real (parseInt (takeWhile isDigit s))))))"
proof -
  have mem: "f \<in> set attemptFields" using assms cleanRow_other by blast
  then have "cleanField f r f \<noteq> r f" using assms by (simp add: cleanRow_at)
  from cleanField_changed[OF this] mem show ?thesis by (simp add: cleanRow_at)
qed

text \<open>
  C9. The cleanup pass keeps the number of rows, and in every row it keeps every field
  other than the three attempt fields. A field that it changes is an attempt field whose
  value was a string starting with a digit, and its new value is the integer written by
  the leading run of digits; and every attempt field holding such a string is changed so.
\<close>

theorem cleanData_frame:
  assumes "i < length rows"
  shows "length (cleanData rows) = length rows
   \<and> (f \<notin> set attemptFields \<longrightarrow> (cleanData rows ! i) f = (rows ! i) f)
   \<and> ((cleanData rows ! i) f \<noteq> (rows ! i) f \<longrightarrow>
        f \<in> set attemptFields
        \<and> (\<exists>s. (rows ! i) f = Some (JStr s) \<and> s \<noteq> [] \<and> isDigit (hd s)
             \<and> (cleanData rows ! i) f
                 = Some (JNum (Fin (real (parseInt (takeWhile isDigit s)))))))
   \<and> (f \<in> set attemptFields \<and> (rows ! i) f = Some (JStr s) \<and> s \<noteq> [] \<and> isDigit (hd s) \<longrightarrow>
        (cleanData rows ! i) f = Some (JNum (Fin (real (parseInt (takeWhile isDigit s))))))"
proof (intro conjI impI)
  have nth: "cleanData rows ! i = cleanRow (rows ! i)"
    using assms by (simp add: cleanData_def)
  show "length (cleanData rows) = length rows"
    by (simp add: cleanData_def)
  show "(cleanData rows ! i) f = (rows ! i) f" if "f \<notin> set attemptFields"
    using that by (simp add: nth cleanRow_other)
  show "f \<in> set attemptFields" if "(cleanData rows ! i) f \<noteq> (rows ! i) f"
    using that cleanRow_changed[of "rows ! i" f] by (simp add: nth)
  show "\<exists>s. (rows ! i) f = Some (JStr s) \<and> s \<noteq> [] \<and> isDigit (hd s)
          \<and> (cleanData rows ! i) f
              = Some (JNum (Fin (real (parseInt (takeWhile isDigit s)))))"
    if "(cleanData rows ! i) f \<noteq> (rows ! i) f"
    using that cleanRow_changed[of "rows ! i" f] by (simp add: nth)
  show "(cleanData rows ! i) f = Some (JNum (Fin (real (parseInt (takeWhile isDigit s)))))"
    if "f \<in> set attemptFields \<and> (rows ! i) f = Some (JStr s) \<and> s \<noteq> [] \<and> isDigit (hd s)"
  proof -
    from that have "cleanField f (rows ! i) f
        = Some (JNum (Fin (real (parseInt (takeWhile isDigit s)))))"
      by (intro cleanField_digits) simp_all
    with that show ?thesis by (simp add: nth cleanRow_at)
  qed
qed

text \<open>The theorem at a row with the comment \<open>3 tries\<close> in its first attempt field: that
  field becomes the number 3, and the field \<open>Comfort\<close>, a string that starts with a
  digit too, stays as it was.\<close>

theorem cleanData_frame_witness:
  "(0::nat) < length [commentRow]
   \<and> ''Comfort'' \<notin> set attemptFields
   \<and> (cleanData [commentRow] ! 0) ''Comfort'' = Some (JStr ''4x'')
   \<and> ''Number of Attempts'' \<in> set attemptFields
   \<and> commentRow ''Number of Attempts'' = Some (JStr ''3 tries'')
   \<and> isDigit (hd ''3 tries'')
   \<and> (cleanData [commentRow] ! 0) ''Number of Attempts'' \<noteq> commentRow ''Number of Attempts''
   \<and> (cleanData [commentRow] ! 0) ''Number of Attempts'' = Some (JNum (Fin 3))"
proof -
  have len: "(0::nat) < length [commentRow]" by simp
  have notin: "''Comfort'' \<notin> set attemptFields" by (simp add: attemptFields_def)
  have isin: "''Number of Attempts'' \<in> set attemptFields" by (simp add: attemptFields_def)
  have dg: "isDigit (hd ''3 tries'')" by (simp add: isDigit_def)
  have tw: "takeWhile isDigit ''3 tries'' = ''3''" by (simp add: isDigit_def)
  have pi: "parseInt ''3'' = 3" by (simp add: parseInt_def digitVal_def)
  have c: "commentRow ''Comfort'' = Some (JStr ''4x'')"
    "commentRow ''Number of Attempts'' = Some (JStr ''3 tries'')"
    by (simp_all add: commentRow_def)
  from cleanData_frame[OF len, of "''Comfort''" "''4x''"] notin c
  have a: "(cleanData [commentRow] ! 0) ''Comfort'' = Some (JStr ''4x'')" by simp
  have prem: "''Number of Attempts'' \<in> set attemptFields
      \<and> ([commentRow] ! 0) ''Number of Attempts'' = Some (JStr ''3 tries'')
      \<and> ''3 tries'' \<noteq> [] \<and> isDigit (hd ''3 tries'')"
    using isin c dg by simp
  have "(cleanData [commentRow] ! 0) ''Number of Attempts''
      = Some (JNum (Fin (real (parseInt (takeWhile isDigit ''3 tries'')))))"
    by (rule cleanData_frame[OF len, THEN conjunct2, THEN conjunct2, THEN conjunct2,
          THEN mp, OF prem])
  then have b: "(cleanData [commentRow] ! 0) ''Number of Attempts'' = Some (JNum (Fin 3))"
    by (simp only: tw pi of_nat_numeral)
  from len notin isin dg a b c show ?thesis by simp
qed

section \<open>Properties of the aggregate scores\<close>

text \<open>
  C3. The specification gives the score 5.0 to a row whose sub-metrics are all 5 and whose
  attempts are 0. The code gives it \<open>35/8 = 4.375\<close>: the test
  \<^verbatim>\<open>row['Number of Attempts'] ?\<close> takes the number 0 for a missing value, so the
  inverted attempts are 0 and not \<open>5 - 0\<close>.
\<close>

theorem zero_attempts_score:
  "rectangleScore (scoreRow sn fivesRow) = Fin 4.375
   \<and> rectangleScore (scoreRow sn fivesRow) \<noteq> Fin 5.0
   \<and> invertAttempts sn (field fivesRow ''Number of Attempts'') = Fin 0"
  by (simp add: scoreRow_def fivesRow_def field_def weightedScore_def invertAttempts_def
        orZero_def truthy_num_def Let_def)

text \<open>
  C2. The specification has the pipeline return defined results for every dataset. On the
  empty dataset, and on a dataset of one row with every field missing,
  \<^verbatim>\<open>calculateAggregateScores\<close> throws instead: it calls \<^verbatim>\<open>math.mean\<close> on an empty
  array (the scores of no row; the Circle scores once the zeros are filtered out).
\<close>

theorem aggregate_scores_throws:
  "calculateAggregateScores sn [] = Inl EmptyMean
   \<and> calculateAggregateScores sn [Map.empty] = Inl EmptyMean"
  by (simp add: calculateAggregateScores_def bindE_def math_mean_def scoreRow_def field_def
        weightedScore_def invertAttempts_def orZero_def truthy_num_def Let_def)

lemma js_max3_tie:
  "js_eq a b \<Longrightarrow> js_gt a c \<Longrightarrow> js_gt b c \<Longrightarrow> js_eq (js_max3 a b c) a"
  by (cases a; cases b; cases c) (auto simp: js_eq_def js_gt_def js_max3_def js_max_def)

text \<open>
  C5. In every row whose Rectangle and Curved scores are equal (\<^verbatim>\<open>===\<close>) and both
  strictly greater than its Circle score, the top choice is the Rectangle handle.
\<close>

theorem topChoice_tie_rectangle:
  "js_eq (rectangleScore (scoreRow sn r)) (curvedScore (scoreRow sn r)) \<Longrightarrow>
   js_gt (rectangleScore (scoreRow sn r)) (circleScore (scoreRow sn r)) \<Longrightarrow>
   js_gt (curvedScore (scoreRow sn r)) (circleScore (scoreRow sn r)) \<Longrightarrow>
   topChoice (scoreRow sn r) = ''Rectangle Handle''"
  by (simp add: scoreRow_def Let_def chooseTop_def js_max3_tie)

lemma tieRow_scores:
  "rectangleScore (scoreRow sn tieRow) = Fin 0.75"
  "curvedScore (scoreRow sn tieRow) = Fin 0.75"
  "circleScore (scoreRow sn tieRow) = Fin 0.375"
  by (simp_all add: scoreRow_def tieRow_def field_def weightedScore_def invertAttempts_def
        orZero_def truthy_num_def Let_def)

text \<open>The theorem at a row with the scores 0.75, 0.75 and 0.375.\<close>

theorem topChoice_tie_rectangle_witness:
  "js_eq (rectangleScore (scoreRow (\<lambda>s. NaN) tieRow)) (curvedScore (scoreRow (\<lambda>s. NaN) tieRow))
   \<and> js_gt (rectangleScore (scoreRow (\<lambda>s. NaN) tieRow)) (circleScore (scoreRow (\<lambda>s. NaN) tieRow))
   \<and> js_gt (curvedScore (scoreRow (\<lambda>s. NaN) tieRow)) (circleScore (scoreRow (\<lambda>s. NaN) tieRow))
   \<and> topChoice (scoreRow (\<lambda>s. NaN) tieRow) = ''Rectangle Handle''"
proof -
  have h1: "js_eq (rectangleScore (scoreRow (\<lambda>s. NaN) tieRow))
              (curvedScore (scoreRow (\<lambda>s. NaN) tieRow))"
    by (simp add: tieRow_scores js_eq_def)
  have h2: "js_gt (rectangleScore (scoreRow (\<lambda>s. NaN) tieRow))
              (circleScore (scoreRow (\<lambda>s. NaN) tieRow))"
    by (simp add: tieRow_scores js_gt_def)
  have h3: "js_gt (curvedScore (scoreRow (\<lambda>s. NaN) tieRow))
              (circleScore (scoreRow (\<lambda>s. NaN) tieRow))"
    by (simp add: tieRow_scores js_gt_def)
  from h1 h2 h3 topChoice_tie_rectangle [OF h1 h2 h3] show ?thesis by simp
qed

lemma chooseTop_cases:
  "chooseTop a b c = ''Rectangle Handle'' \<or> chooseTop a b c = ''Curved Handle''
   \<or> chooseTop a b c = ''Circle Undergrip Handle''"
  by (simp add: chooseTop_def)

lemma topChoice_scoreRow:
  "topChoice (scoreRow sn r) =
     chooseTop (rectangleScore (scoreRow sn r)) (curvedScore (scoreRow sn r))
       (circleScore (scoreRow sn r))"
  by (simp add: scoreRow_def Let_def)

lemma counts_sum:
  "(case topChoiceCounts (map (scoreRow sn) data) of (a, b, c) \<Rightarrow> a + b + c) = length data"
proof (induction data)
  case Nil
  then show ?case by (simp add: topChoiceCounts_def)
next
  case (Cons r data)
  have "topChoice (scoreRow sn r) = ''Rectangle Handle''
    \<or> topChoice (scoreRow sn r) = ''Curved Handle''
    \<or> topChoice (scoreRow sn r) = ''Circle Undergrip Handle''"
    unfolding topChoice_scoreRow by (rule chooseTop_cases)
  with Cons show ?case
    by (auto simp: topChoiceCounts_def)
qed

lemma degenerate_rows_topChoice:
  "topChoice (scoreRow sn Map.empty) = ''Rectangle Handle''
   \<and> chooseTop NaN NaN NaN = ''Circle Undergrip Handle''"
  by (simp add: scoreRow_def field_def weightedScore_def invertAttempts_def orZero_def
        truthy_num_def Let_def chooseTop_def js_max3_def js_max_def js_eq_def)

text \<open>
  C10. For every row, whatever its fields hold, the top choice is one of the three handle
  names; the three counts taken over the scores of a dataset sum to the number of its
  rows; and so do the counts of every result that \<^verbatim>\<open>calculateAggregateScores\<close> returns.
\<close>

theorem topChoice_total:
  "topChoice (scoreRow sn r)
     \<in> {''Rectangle Handle'', ''Curved Handle'', ''Circle Undergrip Handle''}
   \<and> (case topChoiceCounts (map (scoreRow sn) data) of (a, b, c) \<Rightarrow> a + b + c) = length data
   \<and> (calculateAggregateScores sn data = Inr agg \<longrightarrow>
        (case agg_topChoiceCounts agg of (a, b, c) \<Rightarrow> a + b + c) = length data)"
proof (intro conjI impI)
  show "topChoice (scoreRow sn r)
     \<in> {''Rectangle Handle'', ''Curved Handle'', ''Circle Undergrip Handle''}"
    using chooseTop_cases unfolding topChoice_scoreRow by auto
  show "(case topChoiceCounts (map (scoreRow sn) data) of (a, b, c) \<Rightarrow> a + b + c) = length data"
    by (rule counts_sum)
  assume "calculateAggregateScores sn data = Inr agg"
  then have "agg_topChoiceCounts agg = topChoiceCounts (map (scoreRow sn) data)"
    by (auto simp: calculateAggregateScores_def bindE_def Let_def split: sum.splits)
  then show "(case agg_topChoiceCounts agg of (a, b, c) \<Rightarrow> a + b + c) = length data"
    by (simp add: counts_sum)
qed

text \<open>The theorem at a dataset of two rows for which the scorer returns a result.\<close>

theorem topChoice_total_witness:
  "\<exists>agg. calculateAggregateScores (\<lambda>s. NaN) [tieRow, tieRow] = Inr agg
     \<and> (case agg_topChoiceCounts agg of (a, b, c) \<Rightarrow> a + b + c) = 2"
proof -
  obtain agg where h: "calculateAggregateScores (\<lambda>s. NaN) [tieRow, tieRow] = Inr agg"
    by (simp add: calculateAggregateScores_def bindE_def math_mean_def tieRow_scores
          truthy_num_def Let_def)
  from topChoice_total [of "\<lambda>s. NaN" tieRow "[tieRow, tieRow]" agg] h
  show ?thesis by simp
qed

end
